theory Spec2Isabelle
  imports Complex_Main
begin

section \<open>Numbers and errors of the Python program\<close>

text \<open>
  The program computes with Python floats and numpy scalars.  A float is modelled as an
  exact real number, or one of the three special values the program itself can create
  from finite inputs: \<open>float('inf')\<close>, its negative, and NaN.  Rounding, overflow and
  the sign of zero are not modelled: arithmetic on finite values is exact, and a zero
  divisor is taken to be \<open>+0.0\<close>.  The fields of the three input records are finite
  numbers (\<open>real\<close>).
\<close>

datatype pyfloat = Fin real | PInf | NInf | NaN

fun neg :: "pyfloat \<Rightarrow> pyfloat" where
  "neg (Fin a) = Fin (- a)"
| "neg PInf = NInf"
| "neg NInf = PInf"
| "neg NaN = NaN"

text \<open>An infinity multiplied by the sign of a finite number (IEEE 754: \<open>inf * 0\<close> is NaN).\<close>

definition by_sign :: "real \<Rightarrow> pyfloat \<Rightarrow> pyfloat" where
  "by_sign a i = (if 0 < a then i else if a < 0 then neg i else NaN)"

instantiation pyfloat :: "{plus, minus, times, inverse, ord}"
begin

fun plus_pyfloat :: "pyfloat \<Rightarrow> pyfloat \<Rightarrow> pyfloat" where
  "Fin a + Fin b = Fin (a + b)"
| "NaN + _ = NaN"
| "_ + NaN = NaN"
| "PInf + NInf = NaN"
| "NInf + PInf = NaN"
| "PInf + _ = PInf"
| "NInf + _ = NInf"
| "_ + PInf = PInf"
| "_ + NInf = NInf"

definition minus_pyfloat :: "pyfloat \<Rightarrow> pyfloat \<Rightarrow> pyfloat" where
  "x - y = x + neg y"

fun times_pyfloat :: "pyfloat \<Rightarrow> pyfloat \<Rightarrow> pyfloat" where
  "Fin a * Fin b = Fin (a * b)"
| "NaN * _ = NaN"
| "_ * NaN = NaN"
| "Fin a * PInf = by_sign a PInf"
| "Fin a * NInf = by_sign a NInf"
| "PInf * Fin b = by_sign b PInf"
| "NInf * Fin b = by_sign b NInf"
| "PInf * PInf = PInf"
| "PInf * NInf = NInf"
| "NInf * PInf = NInf"
| "NInf * NInf = PInf"

text \<open>
  Division as numpy's scalars do it: a zero divisor gives an infinity or NaN (with a
  warning), never an exception.
\<close>

fun divide_pyfloat :: "pyfloat \<Rightarrow> pyfloat \<Rightarrow> pyfloat" where
  "divide_pyfloat (Fin a) (Fin b) = (if b \<noteq> 0 then Fin (a / b) else by_sign a PInf)"
| "divide_pyfloat NaN _ = NaN"
| "divide_pyfloat _ NaN = NaN"
| "divide_pyfloat (Fin a) PInf = Fin 0"
| "divide_pyfloat (Fin a) NInf = Fin 0"
| "divide_pyfloat PInf (Fin b) = (if 0 \<le> b then PInf else NInf)"
| "divide_pyfloat NInf (Fin b) = (if 0 \<le> b then NInf else PInf)"
| "divide_pyfloat PInf PInf = NaN"
| "divide_pyfloat PInf NInf = NaN"
| "divide_pyfloat NInf PInf = NaN"
| "divide_pyfloat NInf NInf = NaN"

definition inverse_pyfloat :: "pyfloat \<Rightarrow> pyfloat" where
  "inverse_pyfloat x = divide (Fin 1) x"

text \<open>Comparisons: every comparison with NaN is false.\<close>

fun less_pyfloat :: "pyfloat \<Rightarrow> pyfloat \<Rightarrow> bool" where
  "Fin a < Fin b = (a < b)"
| "NaN < _ = False"
| "_ < NaN = False"
| "PInf < _ = False"
| "_ < NInf = False"
| "_ < PInf = True"
| "NInf < _ = True"

fun less_eq_pyfloat :: "pyfloat \<Rightarrow> pyfloat \<Rightarrow> bool" where
  "Fin a \<le> Fin b = (a \<le> b)"
| "NaN \<le> _ = False"
| "_ \<le> NaN = False"
| "_ \<le> PInf = True"
| "NInf \<le> _ = True"
| "PInf \<le> _ = False"
| "_ \<le> NInf = False"

instance ..

end

text \<open>
  Python's \<open>max(a, b)\<close> and \<open>min(a, b)\<close> return the first argument unless a later one
  is strictly greater (smaller); with a NaN they therefore return the first argument.
\<close>

definition py_max :: "'a::ord \<Rightarrow> 'a \<Rightarrow> 'a" where
  "py_max a b = (if a < b then b else a)"

definition py_min :: "'a::ord \<Rightarrow> 'a \<Rightarrow> 'a" where
  "py_min a b = (if b < a then b else a)"

definition py_min3 :: "'a::ord \<Rightarrow> 'a \<Rightarrow> 'a \<Rightarrow> 'a" where
  "py_min3 a b c = py_min (py_min a b) c"

text \<open>
  The only exception the model's arithmetic can raise: Python's own \<open>/\<close> on a zero
  divisor (numpy's \<open>/\<close> does not raise).
\<close>

datatype py_error = ZeroDivisionError

section \<open>The input records\<close>

record AlgaeStrain =
  name :: string
  carbon_content_percent :: real
  doubling_time_hours :: real
  photosynthetic_efficiency :: real
  sinking_rate_m_per_day :: real
  export_fraction :: real
  optimal_temperature_range :: "real \<times> real"
  optimal_salinity_range :: "real \<times> real"
  genetic_kill_switch :: bool
  r_and_d_cost_millions :: real

record EnvironmentalConditions =
  euphotic_depth_m :: real
  surface_temperature_celsius :: real
  salinity_ppt :: real
  nutrient_nitrogen_umol_per_l :: real
  nutrient_phosphorus_umol_per_l :: real
  nutrient_iron_nmol_per_l :: real
  mixing_depth_m :: real
  current_speed_m_per_s :: real
  sequestration_depth_m :: real

record OperationalParameters =
  area_km2 :: real
  application_frequency_per_year :: real
  cultivation_cost_per_kg :: real
  delivery_cost_per_kg :: real
  vessel_cost_per_day :: real
  monitoring_cost_per_year :: real
  regulatory_cost_per_year :: real

section \<open>The model object\<close>

text \<open>
  An \<open>AlgaeCarbonSequestrationModel\<close> object: the three records it was built from and
  its two constants, all instance attributes.  Every method takes the object and returns
  its result together with the object as the call leaves it, so that a write to an
  attribute would show.  A result is \<open>Inl\<close> of the exception raised or \<open>Inr\<close> of the
  value returned.  The constructor \<open>__init__\<close> is \<open>init\<close>, and the four methods
  \<open>_temperature_response_factor\<close>, \<open>_light_limitation_factor\<close>,
  \<open>_nutrient_limitation_factor\<close> and \<open>_salinity_response_factor\<close> are written without
  their leading underscore.  In the two bell-curve factors the quotient is one of Python
  numbers, so its zero divisor is a branch of its own.
\<close>

record model =
  strain :: AlgaeStrain
  environment :: EnvironmentalConditions
  operations :: OperationalParameters
  CARBON_TO_CO2_RATIO :: real
  DAYS_PER_YEAR :: real

definition init :: "AlgaeStrain \<Rightarrow> EnvironmentalConditions \<Rightarrow> OperationalParameters \<Rightarrow> model" where
  "init strain' environment' operations' =
     \<lparr>strain = strain', environment = environment', operations = operations',
      CARBON_TO_CO2_RATIO = 3.67, DAYS_PER_YEAR = 365.25\<rparr>"

subsection \<open>Response factors\<close>

definition temperature_response_factor :: "model \<Rightarrow> (py_error + real) \<times> model" where
  "temperature_response_factor self =
     (let temp = surface_temperature_celsius (environment self);
          (opt_min, opt_max) = optimal_temperature_range (strain self);
          opt_temp = (opt_min + opt_max) / 2
      in if temp < opt_min \<or> temp > opt_max then (Inr 0, self)
         else if temp = opt_temp then (Inr 1, self)
         else if opt_max - opt_min = 0 then (Inl ZeroDivisionError, self)
         else (Inr (1 - ((temp - opt_temp) / (opt_max - opt_min))\<^sup>2), self))"

definition light_limitation_factor :: "model \<Rightarrow> real \<times> model" where
  "light_limitation_factor self =
     (let euphotic_depth = euphotic_depth_m (environment self)
      in if euphotic_depth < 10 then (0.1, self)
         else if euphotic_depth > 100 then (1, self)
         else (0.1 + 0.9 * (euphotic_depth - 10) / 90, self))"

definition nutrient_limitation_factor :: "model \<Rightarrow> real \<times> model" where
  "nutrient_limitation_factor self =
     (let n_factor = py_min 1 (nutrient_nitrogen_umol_per_l (environment self) / 5);
          p_factor = py_min 1 (nutrient_phosphorus_umol_per_l (environment self) / 0.3);
          fe_factor = py_min 1 (nutrient_iron_nmol_per_l (environment self) / 0.06)
      in (py_min3 n_factor p_factor fe_factor, self))"

definition salinity_response_factor :: "model \<Rightarrow> (py_error + real) \<times> model" where
  "salinity_response_factor self =
     (let salinity = salinity_ppt (environment self);
          (opt_min, opt_max) = optimal_salinity_range (strain self)
      in if salinity < opt_min \<or> salinity > opt_max then (Inr 0, self)
         else if salinity = (opt_min + opt_max) / 2 then (Inr 1, self)
         else if opt_max - opt_min = 0 then (Inl ZeroDivisionError, self)
         else (Inr (1 - ((salinity - (opt_min + opt_max) / 2) / (opt_max - opt_min))\<^sup>2), self))"

subsection \<open>Growth and production\<close>

text \<open>
  \<open>np.log(2)\<close> is a numpy scalar, so the division that gives the base rate is numpy's
  and every product below is a numpy scalar as well.
\<close>

definition calculate_growth_rate :: "model \<Rightarrow> (py_error + pyfloat) \<times> model" where
  "calculate_growth_rate self =
     (let base_growth_rate = Fin (ln 2) / Fin (doubling_time_hours (strain self) / 24);
          temp_opt = (fst (optimal_temperature_range (strain self)) +
                      snd (optimal_temperature_range (strain self))) / 2
      in case temperature_response_factor self of
           (Inl e, self) \<Rightarrow> (Inl e, self)
         | (Inr temp_factor, self) \<Rightarrow>
             (case light_limitation_factor self of (light_factor, self) \<Rightarrow>
             (case nutrient_limitation_factor self of (nutrient_factor, self) \<Rightarrow>
             (case salinity_response_factor self of
                (Inl e, self) \<Rightarrow> (Inl e, self)
              | (Inr salinity_factor, self) \<Rightarrow>
                  (let effective_growth_rate =
                         base_growth_rate * Fin temp_factor * Fin light_factor *
                         Fin nutrient_factor * Fin salinity_factor
                   in (Inr (py_max (Fin 0) effective_growth_rate), self))))))"

definition calculate_net_primary_productivity :: "model \<Rightarrow> (py_error + pyfloat) \<times> model" where
  "calculate_net_primary_productivity self =
     (case calculate_growth_rate self of
        (Inl e, self) \<Rightarrow> (Inl e, self)
      | (Inr growth_rate, self) \<Rightarrow>
          (let mixed_layer_depth = mixing_depth_m (environment self);
               biomass_density = 1;
               npp = growth_rate * Fin biomass_density * Fin mixed_layer_depth *
                     Fin (DAYS_PER_YEAR self)
           in (Inr (py_max (Fin 0) npp), self)))"

text \<open>
  The sinking time is a quotient of two Python numbers: a zero sinking rate raises
  \<open>ZeroDivisionError\<close>.
\<close>

definition calculate_carbon_export :: "model \<Rightarrow> (py_error + pyfloat) \<times> model" where
  "calculate_carbon_export self =
     (case calculate_net_primary_productivity self of
        (Inl e, self) \<Rightarrow> (Inl e, self)
      | (Inr npp, self) \<Rightarrow>
          (let export_carbon = npp * Fin (export_fraction (strain self))
           in if sinking_rate_m_per_day (strain self) = 0 then (Inl ZeroDivisionError, self)
              else
                (let sinking_time_days =
                       sequestration_depth_m (environment self) / sinking_rate_m_per_day (strain self);
                     remineralization_rate_per_day = 0.1;
                     survival_fraction = exp (- remineralization_rate_per_day * sinking_time_days)
                 in (Inr (export_carbon * Fin survival_fraction), self))))"

definition calculate_total_carbon_sequestered :: "model \<Rightarrow> (py_error + pyfloat) \<times> model" where
  "calculate_total_carbon_sequestered self =
     (case calculate_carbon_export self of
        (Inl e, self) \<Rightarrow> (Inl e, self)
      | (Inr carbon_export_per_m2, self) \<Rightarrow>
          (let area_m2 = area_km2 (operations self) * 1000000
           in (Inr (carbon_export_per_m2 * Fin area_m2 / Fin 1000), self)))"

definition calculate_co2_removed :: "model \<Rightarrow> (py_error + pyfloat) \<times> model" where
  "calculate_co2_removed self =
     (case calculate_total_carbon_sequestered self of
        (Inl e, self) \<Rightarrow> (Inl e, self)
      | (Inr carbon_kg, self) \<Rightarrow>
          (Inr (carbon_kg * Fin (CARBON_TO_CO2_RATIO self) / Fin 1000), self))"

text \<open>
  \<open>max(0, npp)\<close> is the numpy scalar \<open>npp\<close> when \<open>npp > 0\<close> and the Python integer \<open>0\<close>
  otherwise.  The gap to the target is therefore a numpy scalar exactly when the current
  NPP is positive, and only then does a zero carbon content divide without raising.
\<close>

definition calculate_biomass_required :: "model \<Rightarrow> (py_error + pyfloat) \<times> model" where
  "calculate_biomass_required self =
     (let target_npp = 125
      in case calculate_net_primary_productivity self of
           (Inl e, self) \<Rightarrow> (Inl e, self)
         | (Inr current_npp, self) \<Rightarrow>
             if current_npp \<ge> Fin target_npp then (Inr (Fin 0), self)
             else if \<not> Fin 0 < current_npp \<and> carbon_content_percent (strain self) = 0
               then (Inl ZeroDivisionError, self)
             else
               (let biomass_needed_per_m2 =
                      (Fin target_npp - current_npp) / Fin (carbon_content_percent (strain self)) *
                      Fin 100;
                    area_m2 = area_km2 (operations self) * 1000000
                in (Inr (biomass_needed_per_m2 * Fin area_m2 / Fin 1000), self)))"

subsection \<open>Costs\<close>

text \<open>The dictionary of costs has a fixed set of keys; \<open>total_cost\<close> is its key \<open>'total'\<close>.\<close>

record cost_breakdown =
  cultivation :: pyfloat
  delivery :: pyfloat
  vessel :: pyfloat
  monitoring :: pyfloat
  regulatory :: pyfloat
  r_and_d :: pyfloat
  total_cost :: pyfloat

definition calculate_operational_costs :: "model \<Rightarrow> (py_error + cost_breakdown) \<times> model" where
  "calculate_operational_costs self =
     (case calculate_biomass_required self of
        (Inl e, self) \<Rightarrow> (Inl e, self)
      | (Inr biomass_required, self) \<Rightarrow>
          (let cultivation_cost = biomass_required * Fin (cultivation_cost_per_kg (operations self));
               delivery_cost = biomass_required * Fin (delivery_cost_per_kg (operations self));
               vessel_cost = Fin (vessel_cost_per_day (operations self) * DAYS_PER_YEAR self);
               monitoring_cost = Fin (monitoring_cost_per_year (operations self));
               regulatory_cost = Fin (regulatory_cost_per_year (operations self));
               r_and_d_cost = Fin (r_and_d_cost_millions (strain self) * 1000000 / 10);
               total_cost' = cultivation_cost + delivery_cost + vessel_cost +
                             monitoring_cost + regulatory_cost + r_and_d_cost
           in (Inr \<lparr>cultivation = cultivation_cost, delivery = delivery_cost,
                     vessel = vessel_cost, monitoring = monitoring_cost,
                     regulatory = regulatory_cost, r_and_d = r_and_d_cost,
                     total_cost = total_cost'\<rparr>, self)))"

definition calculate_cost_per_tonne_co2 :: "model \<Rightarrow> (py_error + pyfloat) \<times> model" where
  "calculate_cost_per_tonne_co2 self =
     (case calculate_operational_costs self of
        (Inl e, self) \<Rightarrow> (Inl e, self)
      | (Inr costs, self) \<Rightarrow>
          (case calculate_co2_removed self of
             (Inl e, self) \<Rightarrow> (Inl e, self)
           | (Inr co2_removed, self) \<Rightarrow>
               if co2_removed \<le> Fin 0 then (Inr PInf, self)
               else (Inr (total_cost costs / co2_removed), self)))"

subsection \<open>Viability\<close>

text \<open>The method \<open>_calculate_viability_score\<close> (a name cannot start with an underscore here).\<close>

definition calculate_viability_score :: "model \<Rightarrow> pyfloat \<Rightarrow> pyfloat \<Rightarrow> pyfloat \<times> model" where
  "calculate_viability_score self cost_per_tonne co2_removed =
     (if cost_per_tonne \<le> Fin 0 \<or> co2_removed \<le> Fin 0 then (Fin 0, self)
      else
        (let cost_score = py_max (Fin 0) (Fin 1 - (cost_per_tonne - Fin 50) / Fin 200);
             scale_score = py_min (Fin 1) (co2_removed / Fin 10000);
             safety_score = (if genetic_kill_switch (strain self) then 1 else 0.5)
         in (cost_score * Fin 0.4 + scale_score * Fin 0.4 + Fin safety_score * Fin 0.2, self)))"

record metrics =
  co2_removed_tonnes_per_year :: pyfloat
  cost_per_tonne_co2 :: pyfloat
  total_cost_per_year :: pyfloat
  biomass_required_kg_per_year :: pyfloat
  carbon_sequestered_kg_per_year :: pyfloat
  npp_g_c_per_m2_per_year :: pyfloat
  growth_rate_per_day :: pyfloat
  viability_score :: pyfloat
  cost_competitiveness :: pyfloat
  scale_adequacy :: pyfloat

definition calculate_viability_metrics :: "model \<Rightarrow> (py_error + metrics) \<times> model" where
  "calculate_viability_metrics self =
     (case calculate_co2_removed self of
        (Inl e, self) \<Rightarrow> (Inl e, self)
      | (Inr co2_removed, self) \<Rightarrow>
     (case calculate_cost_per_tonne_co2 self of
        (Inl e, self) \<Rightarrow> (Inl e, self)
      | (Inr cost_per_tonne, self) \<Rightarrow>
     (case calculate_operational_costs self of
        (Inl e, self) \<Rightarrow> (Inl e, self)
      | (Inr costs, self) \<Rightarrow>
     (let target_cost_per_tonne = 100;
          target_co2_removed = 1000
      in
     (case calculate_biomass_required self of
        (Inl e, self) \<Rightarrow> (Inl e, self)
      | (Inr biomass_required, self) \<Rightarrow>
     (case calculate_total_carbon_sequestered self of
        (Inl e, self) \<Rightarrow> (Inl e, self)
      | (Inr carbon_sequestered, self) \<Rightarrow>
     (case calculate_net_primary_productivity self of
        (Inl e, self) \<Rightarrow> (Inl e, self)
      | (Inr npp, self) \<Rightarrow>
     (case calculate_growth_rate self of
        (Inl e, self) \<Rightarrow> (Inl e, self)
      | (Inr growth_rate, self) \<Rightarrow>
     (case calculate_viability_score self cost_per_tonne co2_removed of
        (score, self) \<Rightarrow>
          (Inr \<lparr>co2_removed_tonnes_per_year = co2_removed,
                 cost_per_tonne_co2 = cost_per_tonne,
                 total_cost_per_year = total_cost costs,
                 biomass_required_kg_per_year = biomass_required,
                 carbon_sequestered_kg_per_year = carbon_sequestered,
                 npp_g_c_per_m2_per_year = npp,
                 growth_rate_per_day = growth_rate,
                 viability_score = score,
                 cost_competitiveness =
                   (if Fin 0 < cost_per_tonne then Fin target_cost_per_tonne / cost_per_tonne
                    else Fin 0),
                 scale_adequacy = co2_removed / Fin target_co2_removed\<rparr>, self))))))))))"

subsection \<open>The sample data of the repository\<close>

text \<open>
  The strain and the environment of \<open>create_sample_strains\<close> and
  \<open>create_sample_environments\<close> that the module's own example run uses, and the
  operational parameters of that run.
\<close>

definition fast_growing_cyanobacteria :: AlgaeStrain where
  "fast_growing_cyanobacteria =
     \<lparr>name = ''Fast-growing Cyanobacteria'', carbon_content_percent = 45,
      doubling_time_hours = 12, photosynthetic_efficiency = 0.8,
      sinking_rate_m_per_day = 50, export_fraction = 0.4,
      optimal_temperature_range = (20, 30), optimal_salinity_range = (30, 40),
      genetic_kill_switch = True, r_and_d_cost_millions = 15\<rparr>"

definition tropical_ocean :: EnvironmentalConditions where
  "tropical_ocean =
     \<lparr>euphotic_depth_m = 80, surface_temperature_celsius = 28, salinity_ppt = 35,
      nutrient_nitrogen_umol_per_l = 2, nutrient_phosphorus_umol_per_l = 0.2,
      nutrient_iron_nmol_per_l = 0.05, mixing_depth_m = 50, current_speed_m_per_s = 0.1,
      sequestration_depth_m = 1000\<rparr>"

definition example_operations :: OperationalParameters where
  "example_operations =
     \<lparr>area_km2 = 1000, application_frequency_per_year = 4, cultivation_cost_per_kg = 0.5,
      delivery_cost_per_kg = 0.3, vessel_cost_per_day = 5000,
      monitoring_cost_per_year = 100000, regulatory_cost_per_year = 50000\<rparr>"

text \<open>The model object of that run.\<close>

abbreviation example_model :: model where
  "example_model \<equiv> init fast_growing_cyanobacteria tropical_ocean example_operations"

section \<open>Every method leaves the object as it found it\<close>

text \<open>
  The two bell-curve factors never reach their division with a zero divisor, and no method
  writes an attribute.  The equations below give each method's result in terms of the
  results of the methods it calls.
\<close>

lemma temperature_state: "snd (temperature_response_factor self) = self"
  by (simp add: temperature_response_factor_def Let_def split: prod.splits)

lemma salinity_state: "snd (salinity_response_factor self) = self"
  by (simp add: salinity_response_factor_def Let_def split: prod.splits)

lemma light_state: "snd (light_limitation_factor self) = self"
  by (simp add: light_limitation_factor_def Let_def)

lemma nutrient_state: "snd (nutrient_limitation_factor self) = self"
  by (simp add: nutrient_limitation_factor_def Let_def)

lemma temperature_no_raise: "\<exists>t. temperature_response_factor self = (Inr t, self)"
  by (auto simp add: temperature_response_factor_def Let_def split: prod.splits)

lemma salinity_no_raise: "\<exists>t. salinity_response_factor self = (Inr t, self)"
  by (auto simp add: salinity_response_factor_def Let_def split: prod.splits)

lemma temperature_eq: "temperature_response_factor self = (Inr (projr (fst (temperature_response_factor self))), self)"
  using temperature_no_raise[of self] by auto

lemma salinity_eq: "salinity_response_factor self = (Inr (projr (fst (salinity_response_factor self))), self)"
  using salinity_no_raise[of self] by auto

lemma light_eq: "light_limitation_factor self = (fst (light_limitation_factor self), self)"
  using light_state[of self] by (metis prod.collapse)

lemma nutrient_eq: "nutrient_limitation_factor self = (fst (nutrient_limitation_factor self), self)"
  using nutrient_state[of self] by (metis prod.collapse)

lemma growth_unfold:
  "calculate_growth_rate self =
     (Inr (py_max (Fin 0)
        (Fin (ln 2) / Fin (doubling_time_hours (strain self) / 24) *
         Fin (projr (fst (temperature_response_factor self))) *
         Fin (fst (light_limitation_factor self)) *
         Fin (fst (nutrient_limitation_factor self)) *
         Fin (projr (fst (salinity_response_factor self))))), self)"
  unfolding calculate_growth_rate_def Let_def
  apply (subst temperature_eq)
  apply (simp only: prod.case sum.case)
  apply (subst light_eq)
  apply (simp only: prod.case sum.case)
  apply (subst nutrient_eq)
  apply (simp only: prod.case sum.case)
  apply (subst salinity_eq)
  apply (simp only: prod.case sum.case)
  done

lemma npp_unfold:
  "calculate_net_primary_productivity self =
     (Inr (py_max (Fin 0)
        (projr (fst (calculate_growth_rate self)) * Fin 1 * Fin (mixing_depth_m (environment self)) *
         Fin (DAYS_PER_YEAR self))), self)"
  unfolding calculate_net_primary_productivity_def Let_def
  apply (subst growth_unfold)
  apply (simp only: prod.case sum.case)
  apply (subst growth_unfold)
  apply simp
  done

lemma export_unfold:
  "calculate_carbon_export self =
     (if sinking_rate_m_per_day (strain self) = 0 then Inl ZeroDivisionError
      else Inr (projr (fst (calculate_net_primary_productivity self)) *
                Fin (export_fraction (strain self)) *
                Fin (exp (- 0.1 * (sequestration_depth_m (environment self) /
                                   sinking_rate_m_per_day (strain self))))), self)"
  unfolding calculate_carbon_export_def Let_def
  apply (subst npp_unfold)
  apply (simp only: prod.case sum.case)
  apply (subst npp_unfold)
  apply simp
  done

lemma total_carbon_unfold:
  "calculate_total_carbon_sequestered self =
     (if sinking_rate_m_per_day (strain self) = 0 then Inl ZeroDivisionError
      else Inr (projr (fst (calculate_carbon_export self)) *
                Fin (area_km2 (operations self) * 1000000) / Fin 1000), self)"
  unfolding calculate_total_carbon_sequestered_def Let_def
  by (simp add: export_unfold)

lemma co2_unfold:
  "calculate_co2_removed self =
     (if sinking_rate_m_per_day (strain self) = 0 then Inl ZeroDivisionError
      else Inr (projr (fst (calculate_total_carbon_sequestered self)) *
                Fin (CARBON_TO_CO2_RATIO self) / Fin 1000), self)"
  unfolding calculate_co2_removed_def Let_def
  by (simp add: total_carbon_unfold)

lemma biomass_unfold:
  "calculate_biomass_required self =
     (let current_npp = projr (fst (calculate_net_primary_productivity self)) in
      if current_npp \<ge> Fin 125 then Inr (Fin 0)
      else if \<not> Fin 0 < current_npp \<and> carbon_content_percent (strain self) = 0
        then Inl ZeroDivisionError
      else Inr ((Fin 125 - current_npp) / Fin (carbon_content_percent (strain self)) * Fin 100 *
                Fin (area_km2 (operations self) * 1000000) / Fin 1000), self)"
proof -
  obtain n where n: "calculate_net_primary_productivity self = (Inr n, self)"
    using npp_unfold by blast
  show ?thesis
    unfolding calculate_biomass_required_def Let_def by (simp add: n)
qed

lemma biomass_state: "snd (calculate_biomass_required self) = self"
  by (simp add: biomass_unfold)

lemma costs_unfold:
  "calculate_operational_costs self =
     (case fst (calculate_biomass_required self) of
        Inl e \<Rightarrow> Inl e
      | Inr biomass_required \<Rightarrow>
          Inr \<lparr>cultivation = biomass_required * Fin (cultivation_cost_per_kg (operations self)),
               delivery = biomass_required * Fin (delivery_cost_per_kg (operations self)),
               vessel = Fin (vessel_cost_per_day (operations self) * DAYS_PER_YEAR self),
               monitoring = Fin (monitoring_cost_per_year (operations self)),
               regulatory = Fin (regulatory_cost_per_year (operations self)),
               r_and_d = Fin (r_and_d_cost_millions (strain self) * 1000000 / 10),
               total_cost =
                 biomass_required * Fin (cultivation_cost_per_kg (operations self)) +
                 biomass_required * Fin (delivery_cost_per_kg (operations self)) +
                 Fin (vessel_cost_per_day (operations self) * DAYS_PER_YEAR self) +
                 Fin (monitoring_cost_per_year (operations self)) +
                 Fin (regulatory_cost_per_year (operations self)) +
                 Fin (r_and_d_cost_millions (strain self) * 1000000 / 10)\<rparr>, self)"
proof -
  obtain r where r: "calculate_biomass_required self = (r, self)"
    using biomass_state[of self] by (metis prod.collapse)
  show ?thesis
    unfolding calculate_operational_costs_def Let_def by (simp add: r split: sum.splits)
qed

lemma costs_state: "snd (calculate_operational_costs self) = self"
  by (simp add: costs_unfold)

lemma co2_state: "snd (calculate_co2_removed self) = self"
  by (simp add: co2_unfold)

lemma cost_per_tonne_unfold:
  "calculate_cost_per_tonne_co2 self =
     (case fst (calculate_operational_costs self) of
        Inl e \<Rightarrow> Inl e
      | Inr costs \<Rightarrow>
          (case fst (calculate_co2_removed self) of
             Inl e \<Rightarrow> Inl e
           | Inr co2_removed \<Rightarrow>
               Inr (if co2_removed \<le> Fin 0 then PInf else total_cost costs / co2_removed)), self)"
proof -
  obtain r where r: "calculate_operational_costs self = (r, self)"
    using costs_state[of self] by (metis prod.collapse)
  obtain c where c: "calculate_co2_removed self = (c, self)"
    using co2_state[of self] by (metis prod.collapse)
  show ?thesis
    unfolding calculate_cost_per_tonne_co2_def by (simp add: r c split: sum.splits)
qed

lemma cost_per_tonne_state: "snd (calculate_cost_per_tonne_co2 self) = self"
  by (simp add: cost_per_tonne_unfold)

lemma score_state: "snd (calculate_viability_score self c r) = self"
  by (simp add: calculate_viability_score_def Let_def)

lemma growth_state: "snd (calculate_growth_rate self) = self"
  by (simp add: growth_unfold)

lemma npp_state: "snd (calculate_net_primary_productivity self) = self"
  by (simp add: npp_unfold)

lemma total_carbon_state: "snd (calculate_total_carbon_sequestered self) = self"
  by (simp add: total_carbon_unfold)

section \<open>The response factors\<close>








section \<open>The metrics record\<close>

lemma score_eq:
  "calculate_viability_score self x y = (fst (calculate_viability_score self x y), self)"
  using score_state[of self x y] by (metis prod.collapse)

lemma metrics_value:
  assumes a: "calculate_co2_removed self = (Inr a, self)"
    and d: "calculate_biomass_required self = (Inr d, self)"
  shows "calculate_viability_metrics self =
    (Inr \<lparr>co2_removed_tonnes_per_year = a,
           cost_per_tonne_co2 = projr (fst (calculate_cost_per_tonne_co2 self)),
           total_cost_per_year = total_cost (projr (fst (calculate_operational_costs self))),
           biomass_required_kg_per_year = d,
           carbon_sequestered_kg_per_year = projr (fst (calculate_total_carbon_sequestered self)),
           npp_g_c_per_m2_per_year = projr (fst (calculate_net_primary_productivity self)),
           growth_rate_per_day = projr (fst (calculate_growth_rate self)),
           viability_score =
             fst (calculate_viability_score self (projr (fst (calculate_cost_per_tonne_co2 self))) a),
           cost_competitiveness =
             (if Fin 0 < projr (fst (calculate_cost_per_tonne_co2 self))
              then Fin 100 / projr (fst (calculate_cost_per_tonne_co2 self)) else Fin 0),
           scale_adequacy = a / Fin 1000\<rparr>, self)"
proof -
  have s: "sinking_rate_m_per_day (strain self) \<noteq> 0"
    using a by (auto simp add: co2_unfold split: if_splits)
  obtain c where c: "calculate_operational_costs self = (Inr c, self)"
    by (simp add: costs_unfold d)
  obtain b where b: "calculate_cost_per_tonne_co2 self = (Inr b, self)"
    by (simp add: cost_per_tonne_unfold a c)
  obtain e where e: "calculate_total_carbon_sequestered self = (Inr e, self)"
    by (simp add: total_carbon_unfold s)
  obtain f where f: "calculate_net_primary_productivity self = (Inr f, self)"
    by (simp add: npp_unfold)
  obtain g where g: "calculate_growth_rate self = (Inr g, self)"
    by (simp add: growth_unfold)
  have v: "calculate_viability_score self b a = (fst (calculate_viability_score self b a), self)"
    by (rule score_eq)
  show ?thesis
    unfolding calculate_viability_metrics_def Let_def
    apply (simp only: a b c d e f g prod.case sum.case)
    apply (subst v)
    apply (simp only: prod.case fst_conv sum.sel)
    done
qed

lemma metrics_raises:
  assumes "fst (calculate_co2_removed self) = Inl x \<or> fst (calculate_biomass_required self) = Inl x"
  shows "calculate_viability_metrics self = (Inl ZeroDivisionError, self)"
proof -
  obtain a where a: "calculate_co2_removed self = (a, self)"
    using co2_state[of self] by (metis prod.collapse)
  obtain d where d: "calculate_biomass_required self = (d, self)"
    using biomass_state[of self] by (metis prod.collapse)
  have x: "y = ZeroDivisionError" for y by (cases y) simp
  show ?thesis
  proof (cases a)
    case (Inl e)
    then show ?thesis
      unfolding calculate_viability_metrics_def using x[of e] by (simp add: a)
  next
    case (Inr a')
    then obtain e where e: "d = Inl e" using assms a d by auto
    have c: "calculate_operational_costs self = (Inl e, self)"
      by (simp add: costs_unfold d e)
    have b: "calculate_cost_per_tonne_co2 self = (Inl e, self)"
      by (simp add: cost_per_tonne_unfold c)
    show ?thesis
      unfolding calculate_viability_metrics_def using x[of e] by (simp add: a Inr b)
  qed
qed

lemma metrics_fields:
  assumes "fst (calculate_viability_metrics self) = Inr m"
  shows "calculate_co2_removed self = (Inr (co2_removed_tonnes_per_year m), self)"
    and "calculate_cost_per_tonne_co2 self = (Inr (cost_per_tonne_co2 m), self)"
    and "\<exists>costs. calculate_operational_costs self = (Inr costs, self) \<and>
                 total_cost_per_year m = total_cost costs"
    and "calculate_biomass_required self = (Inr (biomass_required_kg_per_year m), self)"
    and "calculate_total_carbon_sequestered self = (Inr (carbon_sequestered_kg_per_year m), self)"
    and "calculate_net_primary_productivity self = (Inr (npp_g_c_per_m2_per_year m), self)"
    and "calculate_growth_rate self = (Inr (growth_rate_per_day m), self)"
    and "calculate_viability_score self (cost_per_tonne_co2 m) (co2_removed_tonnes_per_year m) =
           (viability_score m, self)"
    and "cost_competitiveness m =
           (if Fin 0 < cost_per_tonne_co2 m then Fin 100 / cost_per_tonne_co2 m else Fin 0)"
    and "scale_adequacy m = co2_removed_tonnes_per_year m / Fin 1000"
proof -
  obtain a where a: "calculate_co2_removed self = (Inr a, self)"
    using metrics_raises[of self] assms co2_state[of self]
    by (cases "fst (calculate_co2_removed self)") (auto simp: prod_eq_iff)
  obtain d where d: "calculate_biomass_required self = (Inr d, self)"
    using metrics_raises[of self] assms biomass_state[of self]
    by (cases "fst (calculate_biomass_required self)") (auto simp: prod_eq_iff)
  have s: "sinking_rate_m_per_day (strain self) \<noteq> 0"
    using a by (auto simp add: co2_unfold split: if_splits)
  obtain c where c: "calculate_operational_costs self = (Inr c, self)"
    by (simp add: costs_unfold d)
  obtain b where b: "calculate_cost_per_tonne_co2 self = (Inr b, self)"
    by (simp add: cost_per_tonne_unfold a c)
  obtain e where e: "calculate_total_carbon_sequestered self = (Inr e, self)"
    by (simp add: total_carbon_unfold s)
  obtain f where f: "calculate_net_primary_productivity self = (Inr f, self)"
    by (simp add: npp_unfold)
  obtain g where g: "calculate_growth_rate self = (Inr g, self)"
    by (simp add: growth_unfold)
  have m: "m = \<lparr>co2_removed_tonnes_per_year = a, cost_per_tonne_co2 = b,
           total_cost_per_year = total_cost c, biomass_required_kg_per_year = d,
           carbon_sequestered_kg_per_year = e, npp_g_c_per_m2_per_year = f,
           growth_rate_per_day = g, viability_score = fst (calculate_viability_score self b a),
           cost_competitiveness = (if Fin 0 < b then Fin 100 / b else Fin 0),
           scale_adequacy = a / Fin 1000\<rparr>"
    using assms unfolding metrics_value[OF a d] by (simp add: b c e f g cong: if_cong)
  show "calculate_co2_removed self = (Inr (co2_removed_tonnes_per_year m), self)" using a m by simp
  show "calculate_cost_per_tonne_co2 self = (Inr (cost_per_tonne_co2 m), self)" using b m by simp
  show "\<exists>costs. calculate_operational_costs self = (Inr costs, self) \<and>
                 total_cost_per_year m = total_cost costs" using c m by simp
  show "calculate_biomass_required self = (Inr (biomass_required_kg_per_year m), self)" using d m by simp
  show "calculate_total_carbon_sequestered self = (Inr (carbon_sequestered_kg_per_year m), self)" using e m by simp
  show "calculate_net_primary_productivity self = (Inr (npp_g_c_per_m2_per_year m), self)" using f m by simp
  show "calculate_growth_rate self = (Inr (growth_rate_per_day m), self)" using g m by simp
  show "calculate_viability_score self (cost_per_tonne_co2 m) (co2_removed_tonnes_per_year m) =
           (viability_score m, self)" using score_eq[of self b a] m by simp
  show "cost_competitiveness m =
           (if Fin 0 < cost_per_tonne_co2 m then Fin 100 / cost_per_tonne_co2 m else Fin 0)" using m by simp
  show "scale_adequacy m = co2_removed_tonnes_per_year m / Fin 1000" using m by simp
qed

section \<open>Growth\<close>

lemma zero_or_nan_times:
  assumes "y = Fin 0 \<or> y = NaN"
  shows "y * Fin a = Fin 0 \<or> y * Fin a = NaN"
  using assms by auto

lemma times_zero_right: "x * Fin 0 = Fin 0 \<or> x * Fin 0 = NaN"
  by (cases x) (simp_all add: by_sign_def)

lemma py_max_zero_or_nan:
  assumes "y = Fin 0 \<or> y = NaN"
  shows "py_max (Fin 0) y = Fin 0"
  using assms by (auto simp add: py_max_def)

lemma growth_zero_if_temperature_zero:
  assumes "fst (temperature_response_factor self) = Inr 0"
  shows "calculate_growth_rate self = (Inr (Fin 0), self)"
proof -
  let ?b = "Fin (ln 2) / Fin (doubling_time_hours (strain self) / 24)"
  have "?b * Fin 0 = Fin 0 \<or> ?b * Fin 0 = NaN" by (rule times_zero_right)
  then have "?b * Fin 0 * Fin (fst (light_limitation_factor self)) *
         Fin (fst (nutrient_limitation_factor self)) *
         Fin (projr (fst (salinity_response_factor self))) = Fin 0 \<or>
       ?b * Fin 0 * Fin (fst (light_limitation_factor self)) *
         Fin (fst (nutrient_limitation_factor self)) *
         Fin (projr (fst (salinity_response_factor self))) = NaN"
    by (rule zero_or_nan_times[OF zero_or_nan_times[OF zero_or_nan_times]])
  then have "py_max (Fin 0) (?b * Fin 0 * Fin (fst (light_limitation_factor self)) *
         Fin (fst (nutrient_limitation_factor self)) *
         Fin (projr (fst (salinity_response_factor self)))) = Fin 0"
    by (rule py_max_zero_or_nan)
  then show ?thesis
    by (simp add: growth_unfold assms)
qed

lemma growth_zero_if_nutrient_zero:
  assumes "fst (nutrient_limitation_factor self) = 0"
  shows "calculate_growth_rate self = (Inr (Fin 0), self)"
proof -
  let ?b = "Fin (ln 2) / Fin (doubling_time_hours (strain self) / 24) *
         Fin (projr (fst (temperature_response_factor self))) *
         Fin (fst (light_limitation_factor self))"
  have "?b * Fin 0 = Fin 0 \<or> ?b * Fin 0 = NaN" by (rule times_zero_right)
  then have "?b * Fin 0 * Fin (projr (fst (salinity_response_factor self))) = Fin 0 \<or>
             ?b * Fin 0 * Fin (projr (fst (salinity_response_factor self))) = NaN"
    by (rule zero_or_nan_times)
  then have "py_max (Fin 0) (?b * Fin 0 *
         Fin (projr (fst (salinity_response_factor self)))) = Fin 0"
    by (rule py_max_zero_or_nan)
  then show ?thesis
    by (simp add: growth_unfold assms)
qed

lemma downstream_zero:
  assumes "calculate_growth_rate self = (Inr (Fin 0), self)"
  shows "calculate_net_primary_productivity self = (Inr (Fin 0), self)"
    and "calculate_carbon_export self =
           (if sinking_rate_m_per_day (strain self) = 0 then Inl ZeroDivisionError
            else Inr (Fin 0), self)"
    and "calculate_total_carbon_sequestered self =
           (if sinking_rate_m_per_day (strain self) = 0 then Inl ZeroDivisionError
            else Inr (Fin 0), self)"
    and "calculate_co2_removed self =
           (if sinking_rate_m_per_day (strain self) = 0 then Inl ZeroDivisionError
            else Inr (Fin 0), self)"
proof -
  show n: "calculate_net_primary_productivity self = (Inr (Fin 0), self)"
    by (simp add: npp_unfold assms py_max_def)
  show e: "calculate_carbon_export self =
           (if sinking_rate_m_per_day (strain self) = 0 then Inl ZeroDivisionError
            else Inr (Fin 0), self)"
    by (simp add: export_unfold n)
  show t: "calculate_total_carbon_sequestered self =
           (if sinking_rate_m_per_day (strain self) = 0 then Inl ZeroDivisionError
            else Inr (Fin 0), self)"
    by (simp add: total_carbon_unfold e)
  show "calculate_co2_removed self =
           (if sinking_rate_m_per_day (strain self) = 0 then Inl ZeroDivisionError
            else Inr (Fin 0), self)"
    by (simp add: co2_unfold t)
qed

text \<open>
  Claim C4.  If the surface temperature is strictly below \<open>opt_min\<close> or strictly above
  \<open>opt_max\<close> of the strain's optimal temperature range, the growth rate is 0, and so
  are the net primary productivity and the CO2 removed; the metrics record, when it is
  returned, holds 0 in \<open>growth_rate_per_day\<close>, \<open>npp_g_c_per_m2_per_year\<close> and
  \<open>co2_removed_tonnes_per_year\<close>.  The CO2 removed is computed only for a nonzero
  sinking rate (a strain has a positive one): with a sinking rate of 0 the sinking time
  divides by zero.
\<close>

theorem no_growth_outside_temperature_range:
  assumes "surface_temperature_celsius (environment self) < fst (optimal_temperature_range (strain self)) \<or>
           surface_temperature_celsius (environment self) > snd (optimal_temperature_range (strain self))"
  shows "calculate_growth_rate self = (Inr (Fin 0), self) \<and>
         calculate_net_primary_productivity self = (Inr (Fin 0), self) \<and>
         (sinking_rate_m_per_day (strain self) \<noteq> 0 \<longrightarrow>
            calculate_co2_removed self = (Inr (Fin 0), self)) \<and>
         (\<forall>m. fst (calculate_viability_metrics self) = Inr m \<longrightarrow>
            growth_rate_per_day m = Fin 0 \<and> npp_g_c_per_m2_per_year m = Fin 0 \<and>
            co2_removed_tonnes_per_year m = Fin 0)"
proof -
  have t: "fst (temperature_response_factor self) = Inr 0"
    using assms by (auto simp add: temperature_response_factor_def Let_def split: prod.splits)
  have g: "calculate_growth_rate self = (Inr (Fin 0), self)"
    using t by (rule growth_zero_if_temperature_zero)
  have n: "calculate_net_primary_productivity self = (Inr (Fin 0), self)"
    using g by (rule downstream_zero)
  have c: "calculate_co2_removed self = (Inr (Fin 0), self)"
    if "sinking_rate_m_per_day (strain self) \<noteq> 0"
    using downstream_zero(4)[OF g] that by simp
  have "growth_rate_per_day m = Fin 0 \<and> npp_g_c_per_m2_per_year m = Fin 0 \<and>
           co2_removed_tonnes_per_year m = Fin 0"
    if m: "fst (calculate_viability_metrics self) = Inr m" for m
    using metrics_fields(1,6,7)[OF m] g n downstream_zero(4)[OF g]
    by (auto split: if_splits)
  then show ?thesis using g n c by blast
qed

text \<open>
  Claim C8.  If the nitrogen concentration is 0 then the nutrient limitation factor is 0
  and the growth rate is 0, whatever the other fields of the strain and of the environment
  are, the phosphorus and iron concentrations being concentrations (not negative).
\<close>

theorem no_growth_without_nitrogen:
  assumes "nutrient_nitrogen_umol_per_l (environment self) = 0"
    and "0 \<le> nutrient_phosphorus_umol_per_l (environment self)"
    and "0 \<le> nutrient_iron_nmol_per_l (environment self)"
  shows "nutrient_limitation_factor self = (0, self) \<and>
         calculate_growth_rate self = (Inr (Fin 0), self)"
proof -
  have n: "nutrient_limitation_factor self = (0, self)"
    using assms by (simp add: nutrient_limitation_factor_def Let_def py_min_def py_min3_def)
  have "calculate_growth_rate self = (Inr (Fin 0), self)"
    by (rule growth_zero_if_nutrient_zero) (simp add: n)
  then show ?thesis using n by simp
qed

section \<open>Light, area and cost per tonne\<close>

lemma py_max_zero_refl: "py_max (Fin 0) v \<le> py_max (Fin 0) v"
  by (cases v) (simp_all add: py_max_def)

lemma light_positive: "0 < fst (light_limitation_factor self)"
proof -
  define f :: "real \<Rightarrow> real" where "f d = 0.1 + 0.9 * (d - 10) / 90" for d
  have "0 < f d" if "\<not> d < 10" for d
    using that unfolding f_def by (simp add: field_simps)
  moreover have "fst (light_limitation_factor self) =
      (if euphotic_depth_m (environment self) < 10 then 0.1
       else if euphotic_depth_m (environment self) > 100 then 1
       else f (euphotic_depth_m (environment self)))"
    unfolding light_limitation_factor_def Let_def f_def by simp
  ultimately show ?thesis by simp
qed

lemma light_mono:
  assumes "euphotic_depth_m (environment a) \<le> euphotic_depth_m (environment b)"
  shows "fst (light_limitation_factor a) \<le> fst (light_limitation_factor b)"
proof -
  define f :: "real \<Rightarrow> real" where "f d = 0.1 + 0.9 * (d - 10) / 90" for d
  have 1: "f d \<le> 1" if "\<not> d > 100" for d
    using that unfolding f_def by (simp add: field_simps)
  have 2: "0.1 \<le> f d" if "\<not> d < 10" for d
    using that unfolding f_def by (simp add: field_simps)
  have 3: "f d \<le> f d'" if "d \<le> d'" for d d'
    using that unfolding f_def by (simp add: field_simps)
  have l: "fst (light_limitation_factor s) =
      (if euphotic_depth_m (environment s) < 10 then 0.1
       else if euphotic_depth_m (environment s) > 100 then 1
       else f (euphotic_depth_m (environment s)))" for s
    unfolding light_limitation_factor_def Let_def f_def by simp
  show ?thesis
    unfolding l using assms 1 2 3 by auto
qed

lemma growth_product_mono:
  assumes "0 < l1" "l1 \<le> l2"
  shows "py_max (Fin 0) (B * Fin l1 * Fin n * Fin s) \<le> py_max (Fin 0) (B * Fin l2 * Fin n * Fin s)"
proof (cases B)
  case (Fin b)
  have "b * l1 * n * s \<le> b * l2 * n * s \<or> (b * l1 * n * s \<le> 0 \<and> b * l2 * n * s \<le> 0)"
  proof (cases "0 \<le> b * n * s")
    case True
    then have "l1 * (b * n * s) \<le> l2 * (b * n * s)" using assms by (intro mult_right_mono) auto
    then show ?thesis by (simp add: mult_ac)
  next
    case False
    then have "b * n * s < 0" by simp
    then have "l1 * (b * n * s) < 0" "l2 * (b * n * s) < 0"
      using assms by (auto intro: mult_pos_neg)
    then show ?thesis by (simp add: mult_ac)
  qed
  then show ?thesis using Fin by (auto simp add: py_max_def)
next
  case PInf
  have "PInf * Fin l1 = PInf * Fin l2" using assms by (simp add: by_sign_def)
  then show ?thesis using PInf py_max_zero_refl by simp
next
  case NInf
  have "NInf * Fin l1 = NInf * Fin l2" using assms by (simp add: by_sign_def)
  then show ?thesis using NInf py_max_zero_refl by simp
next
  case NaN
  then show ?thesis by (simp add: py_max_def)
qed

text \<open>
  Claim C7.  With every other input fixed, the growth rate does not decrease as the
  euphotic depth increases from 10 to 100: for depths \<open>10 \<le> d1 \<le> d2 \<le> 100\<close> both
  growth rates are returned and the one at \<open>d2\<close> is at least the one at \<open>d1\<close>.
\<close>

theorem growth_monotone_in_euphotic_depth:
  assumes "10 \<le> d1" and "d1 \<le> d2" and "d2 \<le> 100"
  shows "\<exists>g1 g2.
           fst (calculate_growth_rate
                  (self\<lparr>environment := (environment self)\<lparr>euphotic_depth_m := d1\<rparr>\<rparr>)) = Inr g1 \<and>
           fst (calculate_growth_rate
                  (self\<lparr>environment := (environment self)\<lparr>euphotic_depth_m := d2\<rparr>\<rparr>)) = Inr g2 \<and>
           g1 \<le> g2"
proof -
  let ?s1 = "self\<lparr>environment := (environment self)\<lparr>euphotic_depth_m := d1\<rparr>\<rparr>"
  let ?s2 = "self\<lparr>environment := (environment self)\<lparr>euphotic_depth_m := d2\<rparr>\<rparr>"
  have t: "fst (temperature_response_factor ?s1) = fst (temperature_response_factor ?s2)"
    by (simp add: temperature_response_factor_def Let_def split: prod.splits)
  have n: "fst (nutrient_limitation_factor ?s1) = fst (nutrient_limitation_factor ?s2)"
    by (simp add: nutrient_limitation_factor_def Let_def)
  have s: "fst (salinity_response_factor ?s1) = fst (salinity_response_factor ?s2)"
    by (simp add: salinity_response_factor_def Let_def split: prod.splits)
  have l: "fst (light_limitation_factor ?s1) \<le> fst (light_limitation_factor ?s2)"
    using assms(2) by (intro light_mono) simp
  have d: "doubling_time_hours (strain ?s1) = doubling_time_hours (strain ?s2)" by simp
  show ?thesis
    unfolding growth_unfold[of ?s1] growth_unfold[of ?s2] t n s d
    using growth_product_mono[OF light_positive[of ?s1] l] by simp
qed

lemma double_times: "x * Fin (2 * a) = Fin 2 * (x * Fin a)"
  by (cases x) (simp_all add: by_sign_def)

lemma double_times_left: "Fin 2 * y * Fin c = Fin 2 * (y * Fin c)"
  by (cases y) (simp_all add: by_sign_def)

lemma double_area:
  assumes "a2 = 2 * a1"
  shows "x * Fin a2 / Fin 1000 = Fin 2 * (x * Fin a1 / Fin 1000)"
  unfolding assms by (cases x) (simp_all add: by_sign_def)

lemma double_divide: "Fin 2 * y / Fin 1000 = Fin 2 * (y / Fin 1000)"
  by (cases y) (simp_all add: by_sign_def)

text \<open>
  Claim C6.  With the strain, the environment and every other operational parameter
  fixed, doubling \<open>area_km2\<close> exactly doubles the CO2 removed and the biomass required.
\<close>

theorem doubling_area_doubles_removal_and_biomass:
  assumes "fst (calculate_co2_removed self) = Inr co2"
    and "fst (calculate_biomass_required self) = Inr biomass"
  shows "calculate_co2_removed
           (self\<lparr>operations := (operations self)\<lparr>area_km2 := 2 * area_km2 (operations self)\<rparr>\<rparr>) =
         (Inr (Fin 2 * co2),
          self\<lparr>operations := (operations self)\<lparr>area_km2 := 2 * area_km2 (operations self)\<rparr>\<rparr>) \<and>
         calculate_biomass_required
           (self\<lparr>operations := (operations self)\<lparr>area_km2 := 2 * area_km2 (operations self)\<rparr>\<rparr>) =
         (Inr (Fin 2 * biomass),
          self\<lparr>operations := (operations self)\<lparr>area_km2 := 2 * area_km2 (operations self)\<rparr>\<rparr>)"
proof -
  let ?s2 = "self\<lparr>operations := (operations self)\<lparr>area_km2 := 2 * area_km2 (operations self)\<rparr>\<rparr>"
  have t: "fst (temperature_response_factor ?s2) = fst (temperature_response_factor self)"
    by (simp add: temperature_response_factor_def Let_def split: prod.splits)
  have l: "fst (light_limitation_factor ?s2) = fst (light_limitation_factor self)"
    by (simp add: light_limitation_factor_def Let_def)
  have n: "fst (nutrient_limitation_factor ?s2) = fst (nutrient_limitation_factor self)"
    by (simp add: nutrient_limitation_factor_def Let_def)
  have s: "fst (salinity_response_factor ?s2) = fst (salinity_response_factor self)"
    by (simp add: salinity_response_factor_def Let_def split: prod.splits)
  have g: "fst (calculate_growth_rate ?s2) = fst (calculate_growth_rate self)"
    by (simp add: growth_unfold t l n s)
  have p: "fst (calculate_net_primary_productivity ?s2) = fst (calculate_net_primary_productivity self)"
    by (simp add: npp_unfold g)
  have e: "fst (calculate_carbon_export ?s2) = fst (calculate_carbon_export self)"
    by (simp add: export_unfold p)
  have a: "area_km2 (operations ?s2) * 1000000 = 2 * (area_km2 (operations self) * 1000000)"
    by simp
  have sink: "sinking_rate_m_per_day (strain self) \<noteq> 0"
    using assms(1) by (auto simp add: co2_unfold split: if_splits)
  have tc: "projr (fst (calculate_total_carbon_sequestered ?s2)) =
            Fin 2 * projr (fst (calculate_total_carbon_sequestered self))"
    using sink double_area[OF a] by (simp add: total_carbon_unfold e)
  have c: "co2 = projr (fst (calculate_total_carbon_sequestered self)) *
                Fin (CARBON_TO_CO2_RATIO self) / Fin 1000"
    using assms(1) sink by (simp add: co2_unfold)
  have c2: "calculate_co2_removed ?s2 = (Inr (Fin 2 * co2), ?s2)"
    using sink by (simp add: co2_unfold[of ?s2] tc c double_times_left double_divide)
  have b2: "calculate_biomass_required ?s2 = (Inr (Fin 2 * biomass), ?s2)"
    using assms(2) double_area[OF a] unfolding biomass_unfold[of ?s2] biomass_unfold[of self] p Let_def
    by (auto split: if_splits)
  show ?thesis using c2 b2 by simp
qed

lemma finite_of_times: "x * Fin a = Fin r \<Longrightarrow> \<exists>v. x = Fin v"
  by (cases x) (simp_all add: by_sign_def split: if_splits)

lemma finite_of_divide: "x / Fin 1000 = Fin r \<Longrightarrow> \<exists>v. x = Fin v"
  by (cases x) (simp_all add: by_sign_def split: if_splits)

lemma finite_biomass:
  assumes "fst (calculate_net_primary_productivity self) = Inr (Fin n)"
    and "carbon_content_percent (strain self) \<noteq> 0"
  shows "\<exists>b. calculate_biomass_required self = (Inr (Fin b), self)"
  using assms by (simp add: biomass_unfold Let_def minus_pyfloat_def)

text \<open>
  Claim C5.  When the costs and the CO2 removed are computed, the cost per tonne is
  exactly \<open>+infinity\<close> whenever the CO2 removed is \<open>\<le> 0\<close>, in particular when it is
  0, and the total annual cost divided by the CO2 removed otherwise; for a finite
  positive removal it is a finite number (the carbon content of a strain being nonzero).
\<close>

theorem cost_per_tonne_infinite_without_removal:
  assumes "fst (calculate_operational_costs self) = Inr costs"
    and "fst (calculate_co2_removed self) = Inr co2"
  shows "calculate_cost_per_tonne_co2 self =
           (Inr (if co2 \<le> Fin 0 then PInf else total_cost costs / co2), self) \<and>
         (co2 = Fin 0 \<longrightarrow> calculate_cost_per_tonne_co2 self = (Inr PInf, self)) \<and>
         (\<forall>c. co2 = Fin c \<and> 0 < c \<and> carbon_content_percent (strain self) \<noteq> 0 \<longrightarrow>
              (\<exists>x. calculate_cost_per_tonne_co2 self = (Inr (Fin x), self)))"
proof -
  have main: "calculate_cost_per_tonne_co2 self =
           (Inr (if co2 \<le> Fin 0 then PInf else total_cost costs / co2), self)"
    using assms by (simp add: cost_per_tonne_unfold)
  have fin: "\<exists>x. calculate_cost_per_tonne_co2 self = (Inr (Fin x), self)"
    if c: "co2 = Fin c" "0 < c" and cc: "carbon_content_percent (strain self) \<noteq> 0" for c
  proof -
    have sink: "sinking_rate_m_per_day (strain self) \<noteq> 0"
      using assms(2) by (auto simp add: co2_unfold split: if_splits)
    have "projr (fst (calculate_total_carbon_sequestered self)) * Fin (CARBON_TO_CO2_RATIO self) / Fin 1000 = Fin c"
      using assms(2) sink c by (simp add: co2_unfold)
    then obtain tc where tc: "projr (fst (calculate_total_carbon_sequestered self)) = Fin tc"
      using finite_of_divide finite_of_times by blast
    then have "projr (fst (calculate_carbon_export self)) * Fin (area_km2 (operations self) * 1000000) / Fin 1000 = Fin tc"
      using sink by (simp add: total_carbon_unfold)
    then obtain e where e: "projr (fst (calculate_carbon_export self)) = Fin e"
      using finite_of_divide finite_of_times by blast
    then obtain n where n: "projr (fst (calculate_net_primary_productivity self)) = Fin n"
      using sink finite_of_times by (simp add: export_unfold) blast
    then have "fst (calculate_net_primary_productivity self) = Inr (Fin n)"
      by (simp add: npp_unfold)
    then obtain b where b: "calculate_biomass_required self = (Inr (Fin b), self)"
      using finite_biomass cc by blast
    then obtain t where t: "total_cost costs = Fin t"
      using assms(1) by (auto simp add: costs_unfold)
    show ?thesis using main t c by simp
  qed
  show ?thesis using main fin by simp
qed

section \<open>The example run\<close>

lemma ln2_ge_half: "1/2 \<le> ln (2::real)"
proof -
  have "exp (1/2 :: real) * exp (1/2) = exp 1" by (simp add: exp_add[symmetric])
  moreover have "exp (1::real) \<le> 3" by (rule exp_le)
  ultimately have "(exp (1/2 :: real))\<^sup>2 \<le> 2\<^sup>2" by (simp add: power2_eq_square)
  then have "exp (1/2 :: real) \<le> 2" by (rule power2_le_imp_le) simp
  then show ?thesis using ln_ge_iff[of 2 "1/2"] by simp
qed

lemma exp_minus2_ge: "1/9 \<le> exp (- 2 :: real)"
proof -
  have "exp (2::real) = exp 1 * exp 1" by (simp add: exp_add[symmetric])
  also have "\<dots> \<le> 3 * 3" by (intro mult_mono exp_le) simp_all
  finally have "exp (2::real) \<le> 9" by simp
  then have "1 / 9 \<le> 1 / exp (2::real)" by (intro divide_left_mono) simp_all
  then show ?thesis by (simp add: exp_minus inverse_eq_divide)
qed

lemma example_temperature: "temperature_response_factor example_model = (Inr (91/100), example_model)"
  by (simp add: temperature_response_factor_def init_def fast_growing_cyanobacteria_def
      tropical_ocean_def power2_eq_square)

lemma example_light: "light_limitation_factor example_model = (4/5, example_model)"
  by (simp add: light_limitation_factor_def init_def tropical_ocean_def)

lemma example_nutrient: "nutrient_limitation_factor example_model = (2/5, example_model)"
  by (simp add: nutrient_limitation_factor_def init_def tropical_ocean_def py_min_def py_min3_def)

lemma example_salinity: "salinity_response_factor example_model = (Inr 1, example_model)"
  by (simp add: salinity_response_factor_def init_def fast_growing_cyanobacteria_def
      tropical_ocean_def)

lemma py_max_pos: "0 < x \<Longrightarrow> py_max (Fin 0) (Fin x) = Fin x"
  by (simp add: py_max_def)

lemma example_growth: "calculate_growth_rate example_model = (Inr (Fin (ln 2 * (364/625))), example_model)"
proof -
  have "doubling_time_hours (strain example_model) = 12"
    by (simp add: init_def fast_growing_cyanobacteria_def)
  then show ?thesis
    by (simp add: growth_unfold example_temperature example_light example_nutrient
        example_salinity py_max_pos)
qed

lemma example_npp: "calculate_net_primary_productivity example_model = (Inr (Fin (ln 2 * (265902/25))), example_model)"
proof -
  have "mixing_depth_m (environment example_model) = 50" "DAYS_PER_YEAR example_model = 365.25"
    by (simp_all add: init_def tropical_ocean_def)
  then show ?thesis
    by (simp add: npp_unfold example_growth py_max_pos)
qed

lemma example_export:
  "calculate_carbon_export example_model = (Inr (Fin (ln 2 * exp (- 2) * (531804/125))), example_model)"
proof -
  have "sinking_rate_m_per_day (strain example_model) = 50" "export_fraction (strain example_model) = 0.4"
    "sequestration_depth_m (environment example_model) = 1000"
    by (simp_all add: init_def tropical_ocean_def fast_growing_cyanobacteria_def)
  then show ?thesis
    by (simp add: export_unfold example_npp)
qed

lemma example_total_carbon:
  "calculate_total_carbon_sequestered example_model = (Inr (Fin (ln 2 * exp (- 2) * 4254432000)), example_model)"
proof -
  have "sinking_rate_m_per_day (strain example_model) = 50" "area_km2 (operations example_model) = 1000"
    by (simp_all add: init_def example_operations_def fast_growing_cyanobacteria_def)
  then show ?thesis
    by (simp add: total_carbon_unfold example_export)
qed

lemma example_co2:
  "calculate_co2_removed example_model = (Inr (Fin (ln 2 * exp (- 2) * (390344136/25))), example_model)"
proof -
  have "sinking_rate_m_per_day (strain example_model) = 50" "CARBON_TO_CO2_RATIO example_model = 3.67"
    by (simp_all add: init_def fast_growing_cyanobacteria_def)
  then show ?thesis
    by (simp add: co2_unfold example_total_carbon)
qed

lemma example_biomass: "calculate_biomass_required example_model = (Inr (Fin 0), example_model)"
proof -
  have "125 \<le> ln (2::real) * (265902/25)" using ln2_ge_half by simp
  then show ?thesis
    by (simp add: biomass_unfold example_npp)
qed

lemma example_costs:
  "calculate_operational_costs example_model =
     (Inr \<lparr>cultivation = Fin 0, delivery = Fin 0, vessel = Fin 1826250,
            monitoring = Fin 100000, regulatory = Fin 50000, r_and_d = Fin 1500000,
            total_cost = Fin 3476250\<rparr>, example_model)"
proof -
  have "cultivation_cost_per_kg (operations example_model) = 0.5" "delivery_cost_per_kg (operations example_model) = 0.3"
    "vessel_cost_per_day (operations example_model) = 5000" "monitoring_cost_per_year (operations example_model) = 100000"
    "regulatory_cost_per_year (operations example_model) = 50000" "r_and_d_cost_millions (strain example_model) = 15"
    "DAYS_PER_YEAR example_model = 365.25"
    by (simp_all add: init_def example_operations_def fast_growing_cyanobacteria_def)
  then show ?thesis
    by (simp add: costs_unfold example_biomass)
qed

lemma score_above_one:
  assumes "0 < p" and "p < 50" and "10000 \<le> c" and "genetic_kill_switch (strain self)"
  shows "\<exists>v. calculate_viability_score self (Fin p) (Fin c) = (Fin v, self) \<and> 1 < v"
proof -
  define x where "x = 1 - (p - 50) / 200"
  have x: "1 < x" unfolding x_def using assms(2) by (simp add: field_simps)
  have 1: "Fin 1 - (Fin p - Fin 50) / Fin 200 = Fin x"
    unfolding x_def by (simp add: minus_pyfloat_def)
  have 2: "py_max (Fin 0) (Fin x) = Fin x" using x by (simp add: py_max_def)
  have 3: "py_min (Fin 1) (Fin c / Fin 10000) = Fin 1"
    using assms(3) by (simp add: py_min_def)
  have 4: "\<not> Fin p \<le> Fin 0" "\<not> Fin c \<le> Fin 0" using assms by simp_all
  have 5: "calculate_viability_score self (Fin p) (Fin c) = (Fin (x * 0.4 + 1 * 0.4 + 1 * 0.2), self)"
    unfolding calculate_viability_score_def Let_def 1 2 3
    using 4 assms(4) by simp
  have "1 < x * 0.4 + 1 * 0.4 + 1 * 0.2" using x by simp
  then show ?thesis using 5 by blast
qed

lemma example_co2_large: "69525 < ln (2::real) * exp (- 2) * (390344136/25)"
proof -
  have "1/2 * (1/9) \<le> ln (2::real) * exp (- 2)"
    by (intro mult_mono ln2_ge_half exp_minus2_ge) simp_all
  then have "(1/2 * (1/9)) * (390344136/25) \<le> ln (2::real) * exp (- 2) * (390344136/25)"
    by (intro mult_right_mono) simp_all
  moreover have "(69525::real) < (1/2 * (1/9)) * (390344136/25)" by simp
  ultimately show ?thesis by linarith
qed

lemma example_cost_per_tonne:
  "calculate_cost_per_tonne_co2 example_model =
     (Inr (Fin (3476250 / (ln 2 * exp (- 2) * (390344136/25)))), example_model)"
proof -
  define c where "c = ln (2::real) * exp (- 2) * (390344136/25)"
  have "0 < c" unfolding c_def using example_co2_large by linarith
  then show ?thesis
    unfolding c_def[symmetric] cost_per_tonne_unfold example_costs example_co2[folded c_def]
    by simp
qed

text \<open>
  Claim C1 says that the viability score lies in \<open>[0, 1]\<close> and that each sub-score is
  clamped to \<open>[0, 1]\<close>.  The cost score is \<open>max(0, 1 - (cost_per_tonne - 50) / 200)\<close>,
  with no upper clamp, so a cost below 50 dollars per tonne gives a cost score above 1.
  The module's own example run ends with a viability score above 1; and a cost of 10
  dollars per tonne with 20000 tonnes removed scores 1.08.
\<close>

theorem example_run_scores_above_one:
  "(\<exists>m. calculate_viability_metrics example_model = (Inr m, example_model) \<and> Fin 1 < viability_score m) \<and>
   calculate_viability_score example_model (Fin 10) (Fin 20000) = (Fin 1.08, example_model)"
proof -
  define c where "c = ln (2::real) * exp (- 2) * (390344136/25)"
  have c: "69525 < c" unfolding c_def by (rule example_co2_large)
  have k: "genetic_kill_switch (strain example_model)"
    by (simp add: init_def fast_growing_cyanobacteria_def)
  have p: "0 < 3476250 / c" "3476250 / c < 50"
    using c by (simp_all add: field_simps)
  have "10000 \<le> c" using c by linarith
  from score_above_one[OF p this k]
  obtain v where v: "calculate_viability_score example_model (Fin (3476250 / c)) (Fin c) = (Fin v, example_model)" "1 < v"
    by blast
  have "viability_score (projr (fst (calculate_viability_metrics example_model))) = Fin v"
    unfolding metrics_value[OF example_co2[folded c_def] example_biomass]
      example_cost_per_tonne[folded c_def]
    by (simp add: v)
  moreover have "calculate_viability_metrics example_model = (Inr (projr (fst (calculate_viability_metrics example_model))), example_model)"
    unfolding metrics_value[OF example_co2 example_biomass] by simp
  ultimately have 1: "\<exists>m. calculate_viability_metrics example_model = (Inr m, example_model) \<and> Fin 1 < viability_score m"
    using v(2) by (metis less_pyfloat.simps(1))
  have 2: "calculate_viability_score example_model (Fin 10) (Fin 20000) = (Fin 1.08, example_model)"
    using k by (simp add: calculate_viability_score_def py_max_def py_min_def minus_pyfloat_def)
  show ?thesis using 1 2 by simp
qed

section \<open>Inputs outside the data model\<close>

text \<open>
  Claim C2 says that a non-positive \<open>doubling_time_hours\<close>, \<open>sinking_rate_m_per_day\<close>,
  \<open>euphotic_depth_m\<close>, \<open>mixing_depth_m\<close> or \<open>area_km2\<close> is rejected with an
  invalid-input signal.  The program checks none of them.  With a doubling time of
  \<open>-12\<close> hours in the example run the growth rate is the number 0 and the evaluation
  returns a metrics record.
\<close>

theorem negative_doubling_time_counterexample:
  "calculate_growth_rate
     (init (fast_growing_cyanobacteria\<lparr>doubling_time_hours := - 12\<rparr>) tropical_ocean
        example_operations) =
   (Inr (Fin 0),
    init (fast_growing_cyanobacteria\<lparr>doubling_time_hours := - 12\<rparr>) tropical_ocean
        example_operations) \<and>
   \<not> isl (fst (calculate_viability_metrics
     (init (fast_growing_cyanobacteria\<lparr>doubling_time_hours := - 12\<rparr>) tropical_ocean
        example_operations)))"
proof -
  let ?m = "init (fast_growing_cyanobacteria\<lparr>doubling_time_hours := - 12\<rparr>) tropical_ocean
        example_operations"
  have t: "temperature_response_factor ?m = (Inr (91/100), ?m)"
    by (simp add: temperature_response_factor_def init_def fast_growing_cyanobacteria_def
      tropical_ocean_def power2_eq_square)
  have l: "light_limitation_factor ?m = (4/5, ?m)"
    by (simp add: light_limitation_factor_def init_def tropical_ocean_def)
  have n: "nutrient_limitation_factor ?m = (2/5, ?m)"
    by (simp add: nutrient_limitation_factor_def init_def tropical_ocean_def py_min_def py_min3_def)
  have s: "salinity_response_factor ?m = (Inr 1, ?m)"
    by (simp add: salinity_response_factor_def init_def fast_growing_cyanobacteria_def
      tropical_ocean_def)
  have d: "doubling_time_hours (strain ?m) = - 12"
    by (simp add: init_def fast_growing_cyanobacteria_def)
  have g: "calculate_growth_rate ?m = (Inr (Fin 0), ?m)"
    unfolding growth_unfold t l n s d by (simp add: py_max_def)
  have k: "sinking_rate_m_per_day (strain ?m) \<noteq> 0" "carbon_content_percent (strain ?m) \<noteq> 0"
    by (simp_all add: init_def fast_growing_cyanobacteria_def)
  have c: "calculate_co2_removed ?m = (Inr (Fin 0), ?m)"
    using downstream_zero(4)[OF g] k by simp
  have b: "calculate_biomass_required ?m =
     (Inr (projr (fst (calculate_biomass_required ?m))), ?m)"
    using k(2) unfolding biomass_unfold Let_def by simp
  show ?thesis using g metrics_value[OF c b] by simp
qed

text \<open>
  Claim C2, amended.  No value of the five fields is rejected as invalid input: the
  constructor stores the three records as given, and whenever the sinking rate and the
  carbon content are nonzero the evaluation returns a metrics record of computed numbers,
  whatever the signs of the five fields.  The only error an evaluation can end in is
  Python's \<open>ZeroDivisionError\<close>, and a sinking rate of exactly 0 ends in it.
\<close>

theorem no_input_is_rejected:
  "strain (init s e ops) = s \<and> environment (init s e ops) = e \<and>
   operations (init s e ops) = ops \<and>
   (sinking_rate_m_per_day s \<noteq> 0 \<and> carbon_content_percent s \<noteq> 0 \<longrightarrow>
      (\<exists>m. calculate_viability_metrics (init s e ops) = (Inr m, init s e ops))) \<and>
   (sinking_rate_m_per_day s = 0 \<longrightarrow>
      calculate_viability_metrics (init s e ops) = (Inl ZeroDivisionError, init s e ops))"
proof -
  let ?m = "init s e ops"
  have f: "strain ?m = s" "environment ?m = e" "operations ?m = ops"
    by (simp_all add: init_def)
  have r: "\<exists>m. calculate_viability_metrics ?m = (Inr m, ?m)"
    if k: "sinking_rate_m_per_day s \<noteq> 0" "carbon_content_percent s \<noteq> 0"
  proof -
    have c: "calculate_co2_removed ?m = (Inr (projr (fst (calculate_co2_removed ?m))), ?m)"
      using k(1) f unfolding co2_unfold by simp
    have b: "calculate_biomass_required ?m =
       (Inr (projr (fst (calculate_biomass_required ?m))), ?m)"
      using k(2) f unfolding biomass_unfold Let_def by simp
    show ?thesis using metrics_value[OF c b] by blast
  qed
  have z: "calculate_viability_metrics ?m = (Inl ZeroDivisionError, ?m)"
    if k: "sinking_rate_m_per_day s = 0"
  proof -
    have "fst (calculate_co2_removed ?m) = Inl ZeroDivisionError"
      using k f unfolding co2_unfold by simp
    then show ?thesis using metrics_raises by blast
  qed
  show ?thesis using f r z by blast
qed

text \<open>
  The amended C2 at a negative doubling time, euphotic depth and area and a mixing depth of
  0, and at a sinking rate of 0.
\<close>

theorem no_input_is_rejected_witness:
  "sinking_rate_m_per_day (fast_growing_cyanobacteria\<lparr>doubling_time_hours := - 12\<rparr>) \<noteq> 0 \<and>
   carbon_content_percent (fast_growing_cyanobacteria\<lparr>doubling_time_hours := - 12\<rparr>) \<noteq> 0 \<and>
   (\<exists>m. calculate_viability_metrics
           (init (fast_growing_cyanobacteria\<lparr>doubling_time_hours := - 12\<rparr>)
              (tropical_ocean\<lparr>euphotic_depth_m := - 5, mixing_depth_m := 0\<rparr>)
              (example_operations\<lparr>area_km2 := - 1000\<rparr>)) =
         (Inr m, init (fast_growing_cyanobacteria\<lparr>doubling_time_hours := - 12\<rparr>)
              (tropical_ocean\<lparr>euphotic_depth_m := - 5, mixing_depth_m := 0\<rparr>)
              (example_operations\<lparr>area_km2 := - 1000\<rparr>))) \<and>
   sinking_rate_m_per_day (fast_growing_cyanobacteria\<lparr>sinking_rate_m_per_day := 0\<rparr>) = 0 \<and>
   calculate_viability_metrics
     (init (fast_growing_cyanobacteria\<lparr>sinking_rate_m_per_day := 0\<rparr>) tropical_ocean
        example_operations) =
   (Inl ZeroDivisionError,
    init (fast_growing_cyanobacteria\<lparr>sinking_rate_m_per_day := 0\<rparr>) tropical_ocean
        example_operations)"
  using no_input_is_rejected[of "fast_growing_cyanobacteria\<lparr>doubling_time_hours := - 12\<rparr>"
      "tropical_ocean\<lparr>euphotic_depth_m := - 5, mixing_depth_m := 0\<rparr>"
      "example_operations\<lparr>area_km2 := - 1000\<rparr>"]
    no_input_is_rejected[of "fast_growing_cyanobacteria\<lparr>sinking_rate_m_per_day := 0\<rparr>"
      tropical_ocean example_operations]
  by (simp add: fast_growing_cyanobacteria_def)

section \<open>The claims at concrete inputs\<close>

text \<open>C4 at 35 degrees, above the example strain's range of 20 to 30.\<close>

theorem no_growth_outside_temperature_range_witness:
  "calculate_growth_rate
     (init fast_growing_cyanobacteria (tropical_ocean\<lparr>surface_temperature_celsius := 35\<rparr>)
        example_operations) =
   (Inr (Fin 0),
    init fast_growing_cyanobacteria (tropical_ocean\<lparr>surface_temperature_celsius := 35\<rparr>)
        example_operations) \<and>
   calculate_net_primary_productivity
     (init fast_growing_cyanobacteria (tropical_ocean\<lparr>surface_temperature_celsius := 35\<rparr>)
        example_operations) =
   (Inr (Fin 0),
    init fast_growing_cyanobacteria (tropical_ocean\<lparr>surface_temperature_celsius := 35\<rparr>)
        example_operations) \<and>
   calculate_co2_removed
     (init fast_growing_cyanobacteria (tropical_ocean\<lparr>surface_temperature_celsius := 35\<rparr>)
        example_operations) =
   (Inr (Fin 0),
    init fast_growing_cyanobacteria (tropical_ocean\<lparr>surface_temperature_celsius := 35\<rparr>)
        example_operations)"
  using no_growth_outside_temperature_range[of
      "init fast_growing_cyanobacteria (tropical_ocean\<lparr>surface_temperature_celsius := 35\<rparr>)
        example_operations"]
  by (simp add: init_def fast_growing_cyanobacteria_def tropical_ocean_def)

text \<open>C8 in the example environment with its nitrogen set to 0.\<close>

theorem no_growth_without_nitrogen_witness:
  "nutrient_limitation_factor
     (init fast_growing_cyanobacteria (tropical_ocean\<lparr>nutrient_nitrogen_umol_per_l := 0\<rparr>)
        example_operations) =
   (0, init fast_growing_cyanobacteria (tropical_ocean\<lparr>nutrient_nitrogen_umol_per_l := 0\<rparr>)
        example_operations) \<and>
   calculate_growth_rate
     (init fast_growing_cyanobacteria (tropical_ocean\<lparr>nutrient_nitrogen_umol_per_l := 0\<rparr>)
        example_operations) =
   (Inr (Fin 0),
    init fast_growing_cyanobacteria (tropical_ocean\<lparr>nutrient_nitrogen_umol_per_l := 0\<rparr>)
        example_operations)"
  using no_growth_without_nitrogen[of
      "init fast_growing_cyanobacteria (tropical_ocean\<lparr>nutrient_nitrogen_umol_per_l := 0\<rparr>)
        example_operations"]
  by (simp add: init_def tropical_ocean_def)

text \<open>C7 for the example run at the depths 20 and 80.\<close>

theorem growth_monotone_in_euphotic_depth_witness:
  "\<exists>g1 g2.
     fst (calculate_growth_rate
            (example_model\<lparr>environment := (environment example_model)\<lparr>euphotic_depth_m := 20\<rparr>\<rparr>)) =
       Inr g1 \<and>
     fst (calculate_growth_rate
            (example_model\<lparr>environment := (environment example_model)\<lparr>euphotic_depth_m := 80\<rparr>\<rparr>)) =
       Inr g2 \<and>
     g1 \<le> g2"
  using growth_monotone_in_euphotic_depth[of 20 80 example_model] by simp

text \<open>C6 for the example run: its area of 1000 square kilometres doubled.\<close>

theorem doubling_area_doubles_removal_and_biomass_witness:
  "calculate_co2_removed
     (example_model\<lparr>operations := (operations example_model)\<lparr>area_km2 := 2 * area_km2 (operations example_model)\<rparr>\<rparr>) =
   (Inr (Fin 2 * Fin (ln 2 * exp (- 2) * (390344136/25))),
    example_model\<lparr>operations := (operations example_model)\<lparr>area_km2 := 2 * area_km2 (operations example_model)\<rparr>\<rparr>) \<and>
   calculate_biomass_required
     (example_model\<lparr>operations := (operations example_model)\<lparr>area_km2 := 2 * area_km2 (operations example_model)\<rparr>\<rparr>) =
   (Inr (Fin 2 * Fin 0),
    example_model\<lparr>operations := (operations example_model)\<lparr>area_km2 := 2 * area_km2 (operations example_model)\<rparr>\<rparr>) \<and>
   area_km2 (operations example_model) = 1000"
proof -
  have 1: "fst (calculate_co2_removed example_model) = Inr (Fin (ln 2 * exp (- 2) * (390344136/25)))"
    by (simp only: example_co2 fst_conv)
  have 2: "fst (calculate_biomass_required example_model) = Inr (Fin 0)"
    by (simp only: example_biomass fst_conv)
  have 3: "area_km2 (operations example_model) = 1000"
    by (simp add: init_def example_operations_def)
  show ?thesis
    using doubling_area_doubles_removal_and_biomass[OF 1 2] 3 by blast
qed

text \<open>
  C5 for the example strain at 35 degrees, where nothing is removed and the cost per tonne
  is \<open>+infinity\<close>, and for the example run, where it is a finite number.
\<close>

theorem cost_per_tonne_infinite_without_removal_witness:
  "calculate_co2_removed
     (init fast_growing_cyanobacteria (tropical_ocean\<lparr>surface_temperature_celsius := 35\<rparr>)
        example_operations) =
   (Inr (Fin 0),
    init fast_growing_cyanobacteria (tropical_ocean\<lparr>surface_temperature_celsius := 35\<rparr>)
        example_operations) \<and>
   calculate_cost_per_tonne_co2
     (init fast_growing_cyanobacteria (tropical_ocean\<lparr>surface_temperature_celsius := 35\<rparr>)
        example_operations) =
   (Inr PInf,
    init fast_growing_cyanobacteria (tropical_ocean\<lparr>surface_temperature_celsius := 35\<rparr>)
        example_operations) \<and>
   calculate_co2_removed example_model = (Inr (Fin (ln 2 * exp (- 2) * (390344136/25))), example_model) \<and>
   calculate_cost_per_tonne_co2 example_model =
     (Inr (Fin (3476250 / (ln 2 * exp (- 2) * (390344136/25)))), example_model)"
proof -
  let ?m = "init fast_growing_cyanobacteria (tropical_ocean\<lparr>surface_temperature_celsius := 35\<rparr>)
        example_operations"
  have g: "calculate_growth_rate ?m = (Inr (Fin 0), ?m)"
    by (rule growth_zero_if_temperature_zero)
      (simp add: temperature_response_factor_def init_def fast_growing_cyanobacteria_def
        tropical_ocean_def)
  have k: "sinking_rate_m_per_day (strain ?m) \<noteq> 0" "carbon_content_percent (strain ?m) \<noteq> 0"
    by (simp_all add: init_def fast_growing_cyanobacteria_def)
  have c: "calculate_co2_removed ?m = (Inr (Fin 0), ?m)"
    using downstream_zero(4)[OF g] k by simp
  have b: "calculate_biomass_required ?m =
     (Inr (projr (fst (calculate_biomass_required ?m))), ?m)"
    using k(2) unfolding biomass_unfold Let_def by simp
  obtain d where d: "calculate_biomass_required ?m = (Inr d, ?m)"
    using b by blast
  obtain costs where costs: "fst (calculate_operational_costs ?m) = Inr costs"
    by (simp add: costs_unfold d)
  have c': "fst (calculate_co2_removed ?m) = Inr (Fin 0)" using c by simp
  have 1: "calculate_cost_per_tonne_co2 ?m = (Inr PInf, ?m)"
    using cost_per_tonne_infinite_without_removal[OF costs c'] by simp
  define r where "r = ln (2::real) * exp (- 2) * (390344136/25)"
  have r: "0 < r" unfolding r_def using example_co2_large by linarith
  have e1: "fst (calculate_operational_costs example_model) =
     Inr \<lparr>cultivation = Fin 0, delivery = Fin 0, vessel = Fin 1826250,
            monitoring = Fin 100000, regulatory = Fin 50000, r_and_d = Fin 1500000,
            total_cost = Fin 3476250\<rparr>"
    by (simp only: example_costs fst_conv)
  have e2: "fst (calculate_co2_removed example_model) = Inr (Fin r)"
    unfolding r_def by (simp only: example_co2 fst_conv)
  have 2: "calculate_cost_per_tonne_co2 example_model = (Inr (Fin (3476250 / r)), example_model)"
    using cost_per_tonne_infinite_without_removal[OF e1 e2] r by simp
  show ?thesis using c 1 2 example_co2 unfolding r_def by blast
qed

end
